theory Spec2Isabelle
  imports Main "HOL-Library.AList"
begin

section \<open>Values, objects and spans\<close>

text \<open>
  The values that flow through \<^verbatim>\<open>packages/node-experimental/src/integrations/http.ts\<close>:
  span attributes (string, number, boolean or array), and \<^verbatim>\<open>undefined\<close> for a key
  that is not there. Numbers are the integer-valued ones (HTTP status codes); strings are
  lists of characters.
\<close>

datatype Value =
    VUndefined
  | VString string
  | VNumber int
  | VBoolean bool
  | VArray "Value list"

text \<open>The truthiness test behind \<^verbatim>\<open>if (v)\<close>, \<^verbatim>\<open>v && ...\<close> and \<^verbatim>\<open>v ? a : b\<close>.\<close>

fun truthy :: "Value \<Rightarrow> bool" where
  "truthy VUndefined = False"
| "truthy (VString s) = (s \<noteq> [])"
| "truthy (VNumber n) = (n \<noteq> 0)"
| "truthy (VBoolean b) = b"
| "truthy (VArray xs) = True"

text \<open>\<^verbatim>\<open>SpanKind\<close> of the tracing API, in its declared order.\<close>

datatype SpanKind = INTERNAL | SERVER | CLIENT | PRODUCER | CONSUMER

type_synonym Attributes = "string \<rightharpoonup> Value"

text \<open>\<^verbatim>\<open>attributes[key]\<close>: a missing key reads as \<^verbatim>\<open>undefined\<close>.\<close>

definition attr :: "Attributes \<Rightarrow> string \<Rightarrow> Value" where
  "attr attrs key = (case attrs key of None \<Rightarrow> VUndefined | Some v \<Rightarrow> v)"

text \<open>The two keys of \<^verbatim>\<open>SemanticAttributes\<close> the file reads.\<close>

definition HTTP_URL :: string where
  "HTTP_URL = ''http.url''"

definition HTTP_STATUS_CODE :: string where
  "HTTP_STATUS_CODE = ''http.status_code''"

record OtelSpan =
  kind :: SpanKind
  attributes :: Attributes
  spanId :: string

text \<open>
  A plain object with string keys, in insertion order: assigning to a key that exists
  replaces its value in place, assigning to a new key appends it.
\<close>

type_synonym Obj = "(string \<times> Value) list"

definition obj_set :: "Obj \<Rightarrow> string \<Rightarrow> Value \<Rightarrow> Obj" where
  "obj_set obj key v = AList.update key v obj"

definition obj_get :: "Obj \<Rightarrow> string \<Rightarrow> Value" where
  "obj_get obj key = (case map_of obj key of None \<Rightarrow> VUndefined | Some v \<Rightarrow> v)"

definition obj_keys :: "Obj \<Rightarrow> string list" where
  "obj_keys obj = map fst obj"

text \<open>Object spread \<^verbatim>\<open>{ ...base, ...src }\<close>: the entries of \<open>src\<close> assigned in order.\<close>

definition obj_spread :: "Obj \<Rightarrow> Obj \<Rightarrow> Obj" where
  "obj_spread base src = foldl (\<lambda>obj (key, v). obj_set obj key v) base src"

section \<open>The integration object\<close>

text \<open>
  \<^verbatim>\<open>HttpOptions\<close>: both fields are optional; \<^verbatim>\<open>tracing\<close> is a boolean or a
  \<^verbatim>\<open>TracingOptions\<close> object whose only field, \<^verbatim>\<open>shouldCreateSpanForRequest\<close>, is
  optional too.
\<close>

datatype TracingOption =
    TracingFlag bool
  | TracingOptions "(string \<Rightarrow> bool) option"

record HttpOptions =
  opt_breadcrumbs :: "bool option"
  opt_tracing :: "TracingOption option"

text \<open>
  The private fields of class \<^verbatim>\<open>Http\<close> (\<^verbatim>\<open>_breadcrumbs\<close>, \<^verbatim>\<open>_tracing\<close>,
  \<^verbatim>\<open>_shouldCreateSpans\<close>, \<^verbatim>\<open>_shouldCreateSpanForRequest\<close>, \<^verbatim>\<open>_unload\<close>), without the
  leading underscore. \<open>unload\<close> is true once \<^verbatim>\<open>_unload\<close> holds the handle returned
  by \<^verbatim>\<open>registerInstrumentations\<close>.
\<close>

record Http =
  breadcrumbs :: bool
  tracing :: "bool option"
  shouldCreateSpans :: bool
  shouldCreateSpanForRequest :: "(string \<Rightarrow> bool) option"
  unload :: bool

text \<open>\<^verbatim>\<open>!!options.tracing\<close>: an object is truthy, a boolean is itself.\<close>

fun tracing_truthy :: "TracingOption \<Rightarrow> bool" where
  "tracing_truthy (TracingFlag b) = b"
| "tracing_truthy (TracingOptions f) = True"

text \<open>The constructor, lines 67 to 76.\<close>

definition Http_new :: "HttpOptions \<Rightarrow> Http" where
  "Http_new options =
     \<lparr> breadcrumbs = (case opt_breadcrumbs options of None \<Rightarrow> True | Some b \<Rightarrow> b),
       tracing = (case opt_tracing options of None \<Rightarrow> None | Some t \<Rightarrow> Some (tracing_truthy t)),
       shouldCreateSpans = False,
       shouldCreateSpanForRequest =
         (case opt_tracing options of
            Some (TracingOptions f) \<Rightarrow> f
          | _ \<Rightarrow> None),
       unload = False \<rparr>"

text \<open>
  The options of the client, as far as \<^verbatim>\<open>setupOnce\<close> reads them; every other option
  lives in the extension part of the record, where the ambient check can see it.
\<close>

record ClientOptions =
  clientShouldCreateSpanForRequest :: "(string \<Rightarrow> bool) option"

text \<open>
  \<^verbatim>\<open>setupOnce\<close>, lines 81 to 128. \<open>hasTracingEnabled\<close> is the ambient check of the
  core package, a parameter here; \<open>clientOptions\<close> is \<^verbatim>\<open>client?.getOptions()\<close>,
  \<open>None\<close> when there is no client. Registering the instrumentation is recorded in
  \<open>unload\<close>; the hooks it installs are the functions of the next sections.
\<close>

definition setupOnce ::
  "('a ClientOptions_scheme option \<Rightarrow> bool) \<Rightarrow> 'a ClientOptions_scheme option \<Rightarrow> Http \<Rightarrow> Http" where
  "setupOnce hasTracingEnabled clientOptions self =
     (if \<not> breadcrumbs self \<and> tracing self = Some False then self
      else self
        \<lparr> shouldCreateSpans :=
            (case tracing self of
               None \<Rightarrow> hasTracingEnabled clientOptions
             | Some t \<Rightarrow> t),
          unload := True,
          shouldCreateSpanForRequest :=
            (case shouldCreateSpanForRequest self of
               Some f \<Rightarrow> Some f
             | None \<Rightarrow>
                 (case clientOptions of
                    None \<Rightarrow> None
                  | Some co \<Rightarrow> clientShouldCreateSpanForRequest co)) \<rparr>)"

section \<open>Span end: keep or drop\<close>

text \<open>\<^verbatim>\<open>getHttpUrl\<close>, lines 224 to 227.\<close>

definition getHttpUrl :: "Attributes \<Rightarrow> string option" where
  "getHttpUrl attrs =
     (case attr attrs HTTP_URL of
        VString url \<Rightarrow> Some url
      | _ \<Rightarrow> None)"

record MutableOptions =
  mo_drop :: bool

text \<open>
  \<^verbatim>\<open>_onSpanEnd\<close>, lines 137 to 155. The result is the decision object after the call
  and the URLs the filter predicate was called with, in order.
\<close>

definition onSpanEnd :: "Http \<Rightarrow> OtelSpan \<Rightarrow> MutableOptions \<Rightarrow> MutableOptions \<times> string list" where
  "onSpanEnd self otelSpan mutableOptions =
     (if \<not> shouldCreateSpans self then (mutableOptions\<lparr>mo_drop := True\<rparr>, [])
      else
        (case shouldCreateSpanForRequest self of
           None \<Rightarrow> (mutableOptions, [])
         | Some f \<Rightarrow>
             (case getHttpUrl (attributes otelSpan) of
                None \<Rightarrow> (mutableOptions, [])
              | Some url \<Rightarrow>
                  if url = [] then (mutableOptions, [])
                  else if \<not> f url then (mutableOptions\<lparr>mo_drop := True\<rparr>, [url])
                  else (mutableOptions, [url]))))"

text \<open>A filter predicate that refuses every URL.\<close>

definition denyAll :: "string \<Rightarrow> bool" where
  "denyAll url = False"

section \<open>Requests, responses and the request record\<close>

text \<open>
  Of the request (\<^verbatim>\<open>ClientRequest | IncomingMessage\<close>) the file reads the method, which
  an incoming message may lack; of the response, the status code, which an incoming
  message may lack as well.
\<close>

record Request =
  req_method :: "string option"

record Response =
  statusCode :: "int option"

definition numberOrUndefined :: "int option \<Rightarrow> Value" where
  "numberOrUndefined n = (case n of None \<Rightarrow> VUndefined | Some i \<Rightarrow> VNumber i)"

text \<open>
  Modelled from the spec: the type of the request record that \<^verbatim>\<open>getRequestSpanData\<close>
  returns (\<^verbatim>\<open>../utils/getRequestSpanData\<close> is not among the sources). The spec gives it
  a \<^verbatim>\<open>url\<close> field, a string, and optional \<^verbatim>\<open>http.query\<close> and \<^verbatim>\<open>http.fragment\<close>
  string fields. The function itself is a parameter \<open>getRequestSpanData\<close> of the
  operations that call it.
\<close>

record RequestRecord =
  rr_url :: string
  rr_query :: "string option"
  rr_fragment :: "string option"

text \<open>The own properties of a request record, as an object spread sees them.\<close>

definition entries :: "RequestRecord \<Rightarrow> Obj" where
  "entries d =
     [(''url'', VString (rr_url d))]
     @ (case rr_query d of None \<Rightarrow> [] | Some q \<Rightarrow> [(''http.query'', VString q)])
     @ (case rr_fragment d of None \<Rightarrow> [] | Some fr \<Rightarrow> [(''http.fragment'', VString fr)])"

section \<open>The monitoring model\<close>

text \<open>
  A span of the monitoring SDK, as far as this file writes to it: the origin, the
  request of a transaction's metadata, the tags and the data. \<open>isTransaction\<close> is
  \<^verbatim>\<open>sentrySpan instanceof Transaction\<close>.
\<close>

record SentrySpan =
  origin :: "string option"
  isTransaction :: bool
  metadataRequest :: "Request option"
  tags :: "string \<rightharpoonup> Value"
  sdata :: "string \<rightharpoonup> Value"

text \<open>
  Modelled from the spec: the writes to a monitoring span (\<^verbatim>\<open>setMetadata\<close>,
  \<^verbatim>\<open>setTag\<close> and \<^verbatim>\<open>setData\<close> of the SDK's span class, which is not among the
  sources). Metadata, tags and data are separate stores; each write sets one key.
\<close>

definition setMetadata :: "SentrySpan \<Rightarrow> Request \<Rightarrow> SentrySpan" where
  "setMetadata s request = s\<lparr>metadataRequest := Some request\<rparr>"

definition setTag :: "SentrySpan \<Rightarrow> string \<Rightarrow> Value \<Rightarrow> SentrySpan" where
  "setTag s key v = s\<lparr>tags := (tags s)(key \<mapsto> v)\<rparr>"

definition setData :: "SentrySpan \<Rightarrow> string \<Rightarrow> Value \<Rightarrow> SentrySpan" where
  "setData s key v = s\<lparr>sdata := (sdata s)(key \<mapsto> v)\<rparr>"

record Breadcrumb =
  category :: string
  bc_data :: Obj
  bc_type :: string

record BreadcrumbHint =
  hint_event :: string
  hint_response :: Response

text \<open>
  What the callbacks can reach: the integration object, the monitoring spans by span id
  (\<^verbatim>\<open>_INTERNAL_getSentrySpan\<close>), the breadcrumbs handed to the hub in order, and the
  decisions returned to the emitter of the span-end event.
\<close>

record World =
  http :: Http
  sentrySpans :: "string \<rightharpoonup> SentrySpan"
  emitted :: "(Breadcrumb \<times> BreadcrumbHint) list"
  decisions :: "MutableOptions list"

section \<open>Request start: enriching the monitoring span\<close>

text \<open>The object \<^verbatim>\<open>additionalData\<close> as it stands before the loop of line 191.\<close>

definition additionalData :: "RequestRecord \<Rightarrow> Attributes \<Rightarrow> Obj" where
  "additionalData d attrs =
     (let a0 = [(''url'', VString (rr_url d))];
          a1 = (if truthy (attr attrs HTTP_STATUS_CODE)
                then obj_set a0 ''http.response.status_code'' (attr attrs HTTP_STATUS_CODE)
                else a0);
          a2 = (case rr_query d of
                  None \<Rightarrow> a1
                | Some q \<Rightarrow> if q \<noteq> [] then obj_set a1 ''http.query'' (VString (drop 1 q)) else a1);
          a3 = (case rr_fragment d of
                  None \<Rightarrow> a2
                | Some fr \<Rightarrow> if fr \<noteq> [] then obj_set a2 ''http.fragment'' (VString (drop 1 fr)) else a2)
      in a3)"

text \<open>The loop of lines 191 to 194: one \<^verbatim>\<open>setData\<close> for each key, in key order.\<close>

definition writeData :: "SentrySpan \<Rightarrow> Obj \<Rightarrow> SentrySpan" where
  "writeData s obj = foldl (\<lambda>s' prop. setData s' prop (obj_get obj prop)) s (obj_keys obj)"

text \<open>\<^verbatim>\<open>_updateSentrySpan\<close>, lines 158 to 195.\<close>

definition updateSentrySpan ::
  "(OtelSpan \<Rightarrow> RequestRecord) \<Rightarrow> World \<Rightarrow> OtelSpan \<Rightarrow> Request \<Rightarrow> World" where
  "updateSentrySpan getRequestSpanData w span request =
     (let d = getRequestSpanData span;
          attrs = attributes span
      in case sentrySpans w (spanId span) of
           None \<Rightarrow> w
         | Some sentrySpan \<Rightarrow>
             (let s1 = sentrySpan\<lparr>origin := Some ''auto.http.otel.http''\<rparr>;
                  s2 = (if isTransaction s1 \<and> kind span = SERVER
                        then setMetadata s1 request else s1);
                  s3 = (if truthy (attr attrs HTTP_STATUS_CODE)
                        then setTag s2 ''http.status_code'' (attr attrs HTTP_STATUS_CODE)
                        else s2);
                  s4 = writeData s3 (additionalData d attrs)
              in w\<lparr>sentrySpans := (sentrySpans w)(spanId span \<mapsto> s4)\<rparr>))"

section \<open>Response end: the breadcrumb\<close>

text \<open>\<^verbatim>\<open>_addRequestBreadcrumb\<close>, lines 198 to 221.\<close>

definition addRequestBreadcrumb ::
  "(OtelSpan \<Rightarrow> RequestRecord) \<Rightarrow> World \<Rightarrow> OtelSpan \<Rightarrow> Response \<Rightarrow> World" where
  "addRequestBreadcrumb getRequestSpanData w span response =
     (if \<not> breadcrumbs (http w) \<or> kind span \<noteq> CLIENT then w
      else
        (let d = getRequestSpanData span
         in w\<lparr>emitted := emitted w @
              [(\<lparr> category = ''http'',
                  bc_data = obj_spread
                    [(''status_code'', numberOrUndefined (statusCode response))] (entries d),
                  bc_type = ''http'' \<rparr>,
                \<lparr> hint_event = ''response'', hint_response = response \<rparr>)]\<rparr>))"

section \<open>The ignore hooks\<close>

text \<open>
  \<^verbatim>\<open>ignoreOutgoingRequestHook\<close>, lines 96 to 99. \<open>getRequestUrl\<close>
  (\<^verbatim>\<open>../utils/getRequestUrl\<close>) and \<open>isSentryRequestUrl\<close> (of the core package, with
  the current hub) are parameters; the first may give \<^verbatim>\<open>undefined\<close>.
\<close>

definition ignoreOutgoingRequestHook ::
  "('r \<Rightarrow> string option) \<Rightarrow> (string \<Rightarrow> bool) \<Rightarrow> 'r \<Rightarrow> bool" where
  "ignoreOutgoingRequestHook getRequestUrl isSentryRequestUrl request =
     (case getRequestUrl request of
        None \<Rightarrow> False
      | Some url \<Rightarrow> if url \<noteq> [] then isSentryRequestUrl url else False)"

text \<open>
  \<^verbatim>\<open>ignoreIncomingRequestHook\<close>, lines 101 to 109. The host language's
  \<^verbatim>\<open>String.prototype.toUpperCase\<close> is a parameter \<open>toUpperCase\<close>: it maps more than
  the letters a to z (the dotless i and the long s have upper-case forms among the
  ASCII letters), and the hook is whatever that function makes it.
\<close>

definition ignoreIncomingRequestHook :: "(string \<Rightarrow> string) \<Rightarrow> Request \<Rightarrow> bool" where
  "ignoreIncomingRequestHook toUpperCase request =
     (case req_method request of
        None \<Rightarrow> False
      | Some m \<Rightarrow>
          (let method' = toUpperCase m
           in if method' = ''OPTIONS'' \<or> method' = ''HEAD'' then True else False))"

text \<open>
  What \<^verbatim>\<open>toUpperCase\<close> computes on a string of ASCII characters: the letters a to z
  become A to Z and every other character stays. It stands in for the parameter only
  at ASCII method names.
\<close>

definition asciiToUpperCase :: "string \<Rightarrow> string" where
  "asciiToUpperCase s =
     map (\<lambda>c. case map_of (zip ''abcdefghijklmnopqrstuvwxyz'' ''ABCDEFGHIJKLMNOPQRSTUVWXYZ'') c of
            None \<Rightarrow> c
          | Some u \<Rightarrow> u) s"

section \<open>The callbacks as the host fires them\<close>





section \<open>Properties of the span-end decision\<close>

lemma getHttpUrl_Some_iff:
  "getHttpUrl attrs = Some url \<longleftrightarrow> attrs HTTP_URL = Some (VString url)"
  by (simp add: getHttpUrl_def attr_def split: option.splits Value.splits)

text \<open>
  Claim C1, as the code has it. \<^verbatim>\<open>onSpanEnd\<close> sets \<^verbatim>\<open>drop\<close> to true exactly when the
  resolved tracing-enabled flag is false, or a filter predicate is configured, the span's
  HTTP URL attribute is a non-empty string and the predicate returns false for it; in
  every other case the decision object is left as it was. When the URL attribute is
  absent or not a string the predicate is not called.
\<close>

theorem onSpanEnd_decision:
  "fst (onSpanEnd self otelSpan m) =
     (if \<not> shouldCreateSpans self \<or>
         (\<exists>f url. shouldCreateSpanForRequest self = Some f \<and>
            getHttpUrl (attributes otelSpan) = Some url \<and> url \<noteq> [] \<and> \<not> f url)
      then m\<lparr>mo_drop := True\<rparr> else m)
   \<and> (getHttpUrl (attributes otelSpan) = None \<longrightarrow> snd (onSpanEnd self otelSpan m) = [])"
  by (auto simp: onSpanEnd_def split: option.splits)

theorem onSpanEnd_decision_witness:
  "fst (onSpanEnd
      \<lparr> breadcrumbs = True, tracing = Some True, shouldCreateSpans = True,
        shouldCreateSpanForRequest = Some denyAll, unload = True \<rparr>
      \<lparr> kind = CLIENT, attributes = [HTTP_URL \<mapsto> VString ''http://svc/healthz''], spanId = ''a1'' \<rparr>
      \<lparr> mo_drop = False \<rparr>) = \<lparr> mo_drop = True \<rparr>
   \<and> fst (onSpanEnd
      \<lparr> breadcrumbs = True, tracing = Some True, shouldCreateSpans = True,
        shouldCreateSpanForRequest = Some denyAll, unload = True \<rparr>
      \<lparr> kind = CLIENT, attributes = Map.empty, spanId = ''a1'' \<rparr>
      \<lparr> mo_drop = False \<rparr>) = \<lparr> mo_drop = False \<rparr>
   \<and> snd (onSpanEnd
      \<lparr> breadcrumbs = True, tracing = Some True, shouldCreateSpans = True,
        shouldCreateSpanForRequest = Some denyAll, unload = True \<rparr>
      \<lparr> kind = CLIENT, attributes = Map.empty, spanId = ''a1'' \<rparr>
      \<lparr> mo_drop = False \<rparr>) = []"
  using onSpanEnd_decision [of
      "\<lparr> breadcrumbs = True, tracing = Some True, shouldCreateSpans = True,
        shouldCreateSpanForRequest = Some denyAll, unload = True \<rparr>"
      "\<lparr> kind = CLIENT, attributes = [HTTP_URL \<mapsto> VString ''http://svc/healthz''], spanId = ''a1'' \<rparr>"
      "\<lparr> mo_drop = False \<rparr>"]
    onSpanEnd_decision [of
      "\<lparr> breadcrumbs = True, tracing = Some True, shouldCreateSpans = True,
        shouldCreateSpanForRequest = Some denyAll, unload = True \<rparr>"
      "\<lparr> kind = CLIENT, attributes = Map.empty, spanId = ''a1'' \<rparr>"
      "\<lparr> mo_drop = False \<rparr>"]
  by (simp add: getHttpUrl_def attr_def denyAll_def)

text \<open>
  Claim C1 as stated fails where the URL attribute is present and is the empty string:
  tracing is enabled, the predicate \<open>denyAll\<close> is configured, the URL attribute is
  there and the predicate returns false for it, yet \<^verbatim>\<open>drop\<close> stays false.
\<close>

theorem onSpanEnd_present_url_counterexample:
  "shouldCreateSpans
      \<lparr> breadcrumbs = True, tracing = Some True, shouldCreateSpans = True,
        shouldCreateSpanForRequest = Some denyAll, unload = True \<rparr>
   \<and> shouldCreateSpanForRequest
      \<lparr> breadcrumbs = True, tracing = Some True, shouldCreateSpans = True,
        shouldCreateSpanForRequest = Some denyAll, unload = True \<rparr> = Some denyAll
   \<and> getHttpUrl (attributes
      \<lparr> kind = CLIENT, attributes = [HTTP_URL \<mapsto> VString ''''], spanId = ''a1'' \<rparr>) = Some ''''
   \<and> \<not> denyAll ''''
   \<and> fst (onSpanEnd
      \<lparr> breadcrumbs = True, tracing = Some True, shouldCreateSpans = True,
        shouldCreateSpanForRequest = Some denyAll, unload = True \<rparr>
      \<lparr> kind = CLIENT, attributes = [HTTP_URL \<mapsto> VString ''''], spanId = ''a1'' \<rparr>
      \<lparr> mo_drop = False \<rparr>) = \<lparr> mo_drop = False \<rparr>"
  by (simp add: onSpanEnd_def getHttpUrl_def attr_def denyAll_def)

text \<open>
  Claim C9. With tracing enabled and a filter predicate configured, a span whose HTTP URL
  attribute is present but is the empty string leaves the decision object as it was
  (\<^verbatim>\<open>drop\<close> stays false) and the predicate is not called: the URL is tested for
  truthiness.
\<close>

theorem onSpanEnd_empty_url:
  assumes "shouldCreateSpans self"
    and "shouldCreateSpanForRequest self = Some f"
    and "attributes otelSpan HTTP_URL = Some (VString '''')"
  shows "onSpanEnd self otelSpan m = (m, [])"
  using assms by (simp add: onSpanEnd_def getHttpUrl_def attr_def)

theorem onSpanEnd_empty_url_witness:
  "onSpanEnd
      \<lparr> breadcrumbs = True, tracing = Some True, shouldCreateSpans = True,
        shouldCreateSpanForRequest = Some denyAll, unload = True \<rparr>
      \<lparr> kind = CLIENT, attributes = [HTTP_URL \<mapsto> VString ''''], spanId = ''a1'' \<rparr>
      \<lparr> mo_drop = False \<rparr> = (\<lparr> mo_drop = False \<rparr>, [])"
  by (rule onSpanEnd_empty_url [where f = denyAll]) simp_all

section \<open>Properties of the enrichment\<close>

lemma foldl_setData_sdata:
  "sdata (foldl (\<lambda>s' prop. setData s' prop (h prop)) s ks) key =
     (if key \<in> set ks then Some (h key) else sdata s key)"
  by (induction ks arbitrary: s) (auto simp: setData_def)

lemma foldl_setData_frame:
  "tags (foldl (\<lambda>s' prop. setData s' prop (h prop)) s ks) = tags s
   \<and> origin (foldl (\<lambda>s' prop. setData s' prop (h prop)) s ks) = origin s
   \<and> isTransaction (foldl (\<lambda>s' prop. setData s' prop (h prop)) s ks) = isTransaction s
   \<and> metadataRequest (foldl (\<lambda>s' prop. setData s' prop (h prop)) s ks) = metadataRequest s"
  by (induction ks arbitrary: s) (auto simp: setData_def)

lemma writeData_sdata:
  "sdata (writeData s obj) key =
     (if key \<in> set (obj_keys obj) then Some (obj_get obj key) else sdata s key)"
  unfolding writeData_def by (rule foldl_setData_sdata)

lemma writeData_tags: "tags (writeData s obj) = tags s"
  unfolding writeData_def by (simp add: foldl_setData_frame)

lemma writeData_origin: "origin (writeData s obj) = origin s"
  unfolding writeData_def by (simp add: foldl_setData_frame)

lemma obj_keys_obj_set: "set (obj_keys (obj_set obj key v)) = insert key (set (obj_keys obj))"
  by (simp add: obj_keys_def obj_set_def dom_update)

lemma obj_get_obj_set:
  "obj_get (obj_set obj key v) key' = (if key' = key then v else obj_get obj key')"
  by (simp add: obj_get_def obj_set_def update_conv')

lemma additionalData_keys:
  "key \<in> set (obj_keys (additionalData d attrs)) \<longleftrightarrow>
     key = ''url''
     \<or> (truthy (attr attrs HTTP_STATUS_CODE) \<and> key = ''http.response.status_code'')
     \<or> (\<exists>q. rr_query d = Some q \<and> q \<noteq> [] \<and> key = ''http.query'')
     \<or> (\<exists>fr. rr_fragment d = Some fr \<and> fr \<noteq> [] \<and> key = ''http.fragment'')"
proof -
  have base: "set (obj_keys [(''url'', v)]) = {''url''}" for v :: Value
    by (simp add: obj_keys_def)
  show ?thesis
    by (cases "rr_query d"; cases "rr_fragment d")
      (auto simp add: additionalData_def Let_def obj_keys_obj_set base simp del: set_simps)
qed

lemma additionalData_query:
  "rr_query d = Some q \<Longrightarrow> q \<noteq> [] \<Longrightarrow>
     obj_get (additionalData d attrs) ''http.query'' = VString (drop 1 q)"
  by (simp add: additionalData_def Let_def obj_get_obj_set split: option.splits)

lemma additionalData_fragment:
  "rr_fragment d = Some fr \<Longrightarrow> fr \<noteq> [] \<Longrightarrow>
     obj_get (additionalData d attrs) ''http.fragment'' = VString (drop 1 fr)"
  by (simp add: additionalData_def Let_def obj_get_obj_set split: option.splits)

lemma additionalData_status:
  "truthy (attr attrs HTTP_STATUS_CODE) \<Longrightarrow>
     obj_get (additionalData d attrs) ''http.response.status_code'' = attr attrs HTTP_STATUS_CODE"
  by (simp add: additionalData_def Let_def obj_get_obj_set split: option.splits)

lemma updateSentrySpan_found:
  "sentrySpans w (spanId span) = Some s \<Longrightarrow>
     sentrySpans (updateSentrySpan g w span request) (spanId span) =
       Some (writeData
         (let s1 = s\<lparr>origin := Some ''auto.http.otel.http''\<rparr>;
              s2 = (if isTransaction s1 \<and> kind span = SERVER then setMetadata s1 request else s1)
          in if truthy (attr (attributes span) HTTP_STATUS_CODE)
             then setTag s2 ''http.status_code'' (attr (attributes span) HTTP_STATUS_CODE)
             else s2)
         (additionalData (g span) (attributes span)))"
  by (simp add: updateSentrySpan_def Let_def)

text \<open>
  Claim C4. When the monitoring span is found: a non-empty \<^verbatim>\<open>http.query\<close> of the
  request record is written to the span's data under \<^verbatim>\<open>http.query\<close> without its first
  character, and likewise \<^verbatim>\<open>http.fragment\<close>; when the record has no fragment, the key
  \<^verbatim>\<open>http.fragment\<close> is not among the keys written, and the span's data under it is
  what it was.
\<close>

theorem updateSentrySpan_query_fragment:
  assumes "sentrySpans w (spanId span) = Some s"
  shows "\<exists>s'. sentrySpans (updateSentrySpan g w span request) (spanId span) = Some s'
    \<and> (\<forall>q. rr_query (g span) = Some q \<and> q \<noteq> [] \<longrightarrow>
          sdata s' ''http.query'' = Some (VString (drop 1 q)))
    \<and> (\<forall>fr. rr_fragment (g span) = Some fr \<and> fr \<noteq> [] \<longrightarrow>
          sdata s' ''http.fragment'' = Some (VString (drop 1 fr)))
    \<and> (rr_fragment (g span) = None \<longrightarrow>
          ''http.fragment'' \<notin> set (obj_keys (additionalData (g span) (attributes span)))
          \<and> sdata s' ''http.fragment'' = sdata s ''http.fragment'')"
  unfolding updateSentrySpan_found [OF assms]
  by (auto simp: writeData_sdata additionalData_keys additionalData_query
      additionalData_fragment Let_def setTag_def setMetadata_def split: option.splits)

theorem updateSentrySpan_query_fragment_witness:
  "\<exists>s'. sentrySpans (updateSentrySpan
        (\<lambda>_. \<lparr> rr_url = ''http://svc/p?a=1'', rr_query = Some ''?a=1'', rr_fragment = None \<rparr>)
        \<lparr> http = Http_new \<lparr> opt_breadcrumbs = None, opt_tracing = None \<rparr>,
          sentrySpans = [''a1'' \<mapsto> \<lparr> origin = None, isTransaction = False,
            metadataRequest = None, tags = Map.empty, sdata = Map.empty \<rparr>],
          emitted = [], decisions = [] \<rparr>
        \<lparr> kind = CLIENT, attributes = Map.empty, spanId = ''a1'' \<rparr>
        \<lparr> req_method = Some ''GET'' \<rparr>) ''a1'' = Some s'
     \<and> sdata s' ''http.query'' = Some (VString ''a=1'')
     \<and> sdata s' ''http.fragment'' = None"
  using updateSentrySpan_query_fragment [of
      "\<lparr> http = Http_new \<lparr> opt_breadcrumbs = None, opt_tracing = None \<rparr>,
          sentrySpans = [''a1'' \<mapsto> \<lparr> origin = None, isTransaction = False,
            metadataRequest = None, tags = Map.empty, sdata = Map.empty \<rparr>],
          emitted = [], decisions = [] \<rparr>"
      "\<lparr> kind = CLIENT, attributes = Map.empty, spanId = ''a1'' \<rparr>"
      "\<lparr> origin = None, isTransaction = False,
            metadataRequest = None, tags = Map.empty, sdata = Map.empty \<rparr>"
      "\<lambda>_. \<lparr> rr_url = ''http://svc/p?a=1'', rr_query = Some ''?a=1'', rr_fragment = None \<rparr>"
      "\<lparr> req_method = Some ''GET'' \<rparr>"]
  by simp blast

text \<open>
  Claim C5, as the code has it. When the monitoring span is found and the span's HTTP
  status code attribute is truthy (not absent, and not 0, the empty string or false),
  its value is written to the span's data under \<^verbatim>\<open>http.response.status_code\<close> and set
  as the tag \<^verbatim>\<open>http.status_code\<close>; otherwise the data key is not among the keys
  written, the data under it is what it was, and the tags are what they were.
\<close>

theorem updateSentrySpan_status_code:
  assumes "sentrySpans w (spanId span) = Some s"
  shows "\<exists>s'. sentrySpans (updateSentrySpan g w span request) (spanId span) = Some s'
    \<and> (if truthy (attr (attributes span) HTTP_STATUS_CODE)
       then sdata s' ''http.response.status_code'' = Some (attr (attributes span) HTTP_STATUS_CODE)
          \<and> tags s' ''http.status_code'' = Some (attr (attributes span) HTTP_STATUS_CODE)
       else ''http.response.status_code'' \<notin> set (obj_keys (additionalData (g span) (attributes span)))
          \<and> sdata s' ''http.response.status_code'' = sdata s ''http.response.status_code''
          \<and> tags s' = tags s)"
  unfolding updateSentrySpan_found [OF assms]
  by (auto simp: writeData_sdata writeData_tags additionalData_keys additionalData_status
      Let_def setTag_def setMetadata_def split: option.splits)

theorem updateSentrySpan_status_code_witness:
  "\<exists>s'. sentrySpans (updateSentrySpan
        (\<lambda>_. \<lparr> rr_url = ''http://svc/p'', rr_query = None, rr_fragment = None \<rparr>)
        \<lparr> http = Http_new \<lparr> opt_breadcrumbs = None, opt_tracing = None \<rparr>,
          sentrySpans = [''a1'' \<mapsto> \<lparr> origin = None, isTransaction = False,
            metadataRequest = None, tags = Map.empty, sdata = Map.empty \<rparr>],
          emitted = [], decisions = [] \<rparr>
        \<lparr> kind = CLIENT, attributes = [HTTP_STATUS_CODE \<mapsto> VNumber 200], spanId = ''a1'' \<rparr>
        \<lparr> req_method = Some ''GET'' \<rparr>) ''a1'' = Some s'
     \<and> sdata s' ''http.response.status_code'' = Some (VNumber 200)
     \<and> tags s' ''http.status_code'' = Some (VNumber 200)"
  using updateSentrySpan_status_code [of
      "\<lparr> http = Http_new \<lparr> opt_breadcrumbs = None, opt_tracing = None \<rparr>,
          sentrySpans = [''a1'' \<mapsto> \<lparr> origin = None, isTransaction = False,
            metadataRequest = None, tags = Map.empty, sdata = Map.empty \<rparr>],
          emitted = [], decisions = [] \<rparr>"
      "\<lparr> kind = CLIENT, attributes = [HTTP_STATUS_CODE \<mapsto> VNumber 200], spanId = ''a1'' \<rparr>"
      "\<lparr> origin = None, isTransaction = False,
            metadataRequest = None, tags = Map.empty, sdata = Map.empty \<rparr>"
      "\<lambda>_. \<lparr> rr_url = ''http://svc/p'', rr_query = None, rr_fragment = None \<rparr>"
      "\<lparr> req_method = Some ''GET'' \<rparr>"]
  by (simp add: attr_def)

text \<open>
  Claim C5 as stated fails where the status code attribute is present and falsy: with
  the attribute \<^verbatim>\<open>http.status_code\<close> equal to the number 0, the monitoring span is
  found and enriched (its origin is set), but neither the data key nor the tag is written.
\<close>

theorem updateSentrySpan_status_code_counterexample:
  "attributes \<lparr> kind = CLIENT, attributes = [HTTP_STATUS_CODE \<mapsto> VNumber 0], spanId = ''a1'' \<rparr>
      HTTP_STATUS_CODE = Some (VNumber 0)
   \<and> sentrySpans (updateSentrySpan
        (\<lambda>_. \<lparr> rr_url = ''http://svc/p'', rr_query = None, rr_fragment = None \<rparr>)
        \<lparr> http = Http_new \<lparr> opt_breadcrumbs = None, opt_tracing = None \<rparr>,
          sentrySpans = [''a1'' \<mapsto> \<lparr> origin = None, isTransaction = False,
            metadataRequest = None, tags = Map.empty, sdata = Map.empty \<rparr>],
          emitted = [], decisions = [] \<rparr>
        \<lparr> kind = CLIENT, attributes = [HTTP_STATUS_CODE \<mapsto> VNumber 0], spanId = ''a1'' \<rparr>
        \<lparr> req_method = Some ''GET'' \<rparr>) ''a1''
     = Some \<lparr> origin = Some ''auto.http.otel.http'', isTransaction = False,
         metadataRequest = None, tags = Map.empty,
         sdata = [''url'' \<mapsto> VString ''http://svc/p''] \<rparr>"
  by (simp add: updateSentrySpan_def Let_def attr_def additionalData_def writeData_def
      obj_keys_def obj_get_def setData_def)

text \<open>
  Claim C7. When no monitoring span is found for the span's identifier,
  \<^verbatim>\<open>_updateSentrySpan\<close> returns with the monitoring model as it was: no origin, no
  metadata, no tag and no data is written. The operation has no failing branch.
\<close>

theorem updateSentrySpan_no_span:
  assumes "sentrySpans w (spanId span) = None"
  shows "updateSentrySpan g w span request = w"
  using assms by (simp add: updateSentrySpan_def Let_def)

theorem updateSentrySpan_no_span_witness:
  "updateSentrySpan
      (\<lambda>_. \<lparr> rr_url = ''http://svc/p?a=1'', rr_query = Some ''?a=1'', rr_fragment = None \<rparr>)
      \<lparr> http = Http_new \<lparr> opt_breadcrumbs = None, opt_tracing = None \<rparr>,
        sentrySpans = [''b2'' \<mapsto> \<lparr> origin = None, isTransaction = True,
          metadataRequest = None, tags = Map.empty, sdata = Map.empty \<rparr>],
        emitted = [], decisions = [] \<rparr>
      \<lparr> kind = SERVER, attributes = [HTTP_STATUS_CODE \<mapsto> VNumber 200], spanId = ''a1'' \<rparr>
      \<lparr> req_method = Some ''GET'' \<rparr>
    = \<lparr> http = Http_new \<lparr> opt_breadcrumbs = None, opt_tracing = None \<rparr>,
        sentrySpans = [''b2'' \<mapsto> \<lparr> origin = None, isTransaction = True,
          metadataRequest = None, tags = Map.empty, sdata = Map.empty \<rparr>],
        emitted = [], decisions = [] \<rparr>"
  by (rule updateSentrySpan_no_span) simp

section \<open>Properties of the breadcrumb\<close>

lemma obj_spread_entries:
  "obj_spread [(''status_code'', v)] (entries d) = (''status_code'', v) # entries d"
  by (cases "rr_query d"; cases "rr_fragment d")
    (simp_all add: obj_spread_def entries_def obj_set_def)

lemma addRequestBreadcrumb_skip:
  "\<not> breadcrumbs (http w) \<or> kind span \<noteq> CLIENT \<Longrightarrow> addRequestBreadcrumb g w span response = w"
  by (auto simp: addRequestBreadcrumb_def)

lemma addRequestBreadcrumb_emitted:
  "breadcrumbs (http w) \<Longrightarrow> kind span = CLIENT \<Longrightarrow>
     emitted (addRequestBreadcrumb g w span response) =
       emitted w @
         [(\<lparr> category = ''http'',
             bc_data = (''status_code'', numberOrUndefined (statusCode response)) # entries (g span),
             bc_type = ''http'' \<rparr>,
           \<lparr> hint_event = ''response'', hint_response = response \<rparr>)]"
  by (simp add: addRequestBreadcrumb_def Let_def obj_spread_entries)

text \<open>
  Claim C3. With breadcrumbs disabled, or a span whose kind is not CLIENT (a SERVER span
  in particular), \<^verbatim>\<open>_addRequestBreadcrumb\<close> emits nothing and changes nothing. With
  breadcrumbs enabled and a CLIENT span it emits exactly one breadcrumb, of category
  \<^verbatim>\<open>http\<close> and type \<^verbatim>\<open>http\<close>, whose data holds the response's status code under
  \<^verbatim>\<open>status_code\<close>.
\<close>

theorem addRequestBreadcrumb_emits:
  "(\<not> breadcrumbs (http w) \<or> kind span \<noteq> CLIENT \<longrightarrow>
      addRequestBreadcrumb g w span response = w)
   \<and> (breadcrumbs (http w) \<and> kind span = CLIENT \<longrightarrow>
      (\<exists>b h. emitted (addRequestBreadcrumb g w span response) = emitted w @ [(b, h)]
         \<and> category b = ''http'' \<and> bc_type b = ''http''
         \<and> map_of (bc_data b) ''status_code'' = Some (numberOrUndefined (statusCode response))))"
  by (simp add: addRequestBreadcrumb_skip addRequestBreadcrumb_emitted)

theorem addRequestBreadcrumb_emits_witness:
  "addRequestBreadcrumb
      (\<lambda>_. \<lparr> rr_url = ''http://svc/p'', rr_query = None, rr_fragment = None \<rparr>)
      \<lparr> http = \<lparr> breadcrumbs = True, tracing = None, shouldCreateSpans = False,
          shouldCreateSpanForRequest = None, unload = True \<rparr>,
        sentrySpans = Map.empty, emitted = [], decisions = [] \<rparr>
      \<lparr> kind = SERVER, attributes = Map.empty, spanId = ''a1'' \<rparr>
      \<lparr> statusCode = Some 404 \<rparr>
    = \<lparr> http = \<lparr> breadcrumbs = True, tracing = None, shouldCreateSpans = False,
          shouldCreateSpanForRequest = None, unload = True \<rparr>,
        sentrySpans = Map.empty, emitted = [], decisions = [] \<rparr>
   \<and> (\<exists>b h. emitted (addRequestBreadcrumb
      (\<lambda>_. \<lparr> rr_url = ''http://svc/p'', rr_query = None, rr_fragment = None \<rparr>)
      \<lparr> http = \<lparr> breadcrumbs = True, tracing = None, shouldCreateSpans = False,
          shouldCreateSpanForRequest = None, unload = True \<rparr>,
        sentrySpans = Map.empty, emitted = [], decisions = [] \<rparr>
      \<lparr> kind = CLIENT, attributes = Map.empty, spanId = ''a1'' \<rparr>
      \<lparr> statusCode = Some 404 \<rparr>) = [(b, h)]
     \<and> category b = ''http'' \<and> bc_type b = ''http''
     \<and> map_of (bc_data b) ''status_code'' = Some (VNumber 404))"
  using addRequestBreadcrumb_emits [of
      "\<lparr> http = \<lparr> breadcrumbs = True, tracing = None, shouldCreateSpans = False,
          shouldCreateSpanForRequest = None, unload = True \<rparr>,
        sentrySpans = Map.empty, emitted = [], decisions = [] \<rparr>"
      "\<lparr> kind = SERVER, attributes = Map.empty, spanId = ''a1'' \<rparr>"
      "\<lambda>_. \<lparr> rr_url = ''http://svc/p'', rr_query = None, rr_fragment = None \<rparr>"
      "\<lparr> statusCode = Some 404 \<rparr>"]
    addRequestBreadcrumb_emits [of
      "\<lparr> http = \<lparr> breadcrumbs = True, tracing = None, shouldCreateSpans = False,
          shouldCreateSpanForRequest = None, unload = True \<rparr>,
        sentrySpans = Map.empty, emitted = [], decisions = [] \<rparr>"
      "\<lparr> kind = CLIENT, attributes = Map.empty, spanId = ''a1'' \<rparr>"
      "\<lambda>_. \<lparr> rr_url = ''http://svc/p'', rr_query = None, rr_fragment = None \<rparr>"
      "\<lparr> statusCode = Some 404 \<rparr>"]
  by (simp add: numberOrUndefined_def)

text \<open>
  Claim C2. The claim expects the breadcrumb of the scenario to hold the query and the
  fragment without their leading \<open>?\<close> and \<open>#\<close>, as \<^verbatim>\<open>_updateSentrySpan\<close> writes
  them to the span's data under the same keys. \<^verbatim>\<open>_addRequestBreadcrumb\<close> does not
  strip them: for a CLIENT span with breadcrumbs enabled, the breadcrumb's data holds
  under \<^verbatim>\<open>http.query\<close> and \<^verbatim>\<open>http.fragment\<close> the request record's values as they
  are, leading delimiter included.
\<close>

theorem addRequestBreadcrumb_keeps_delimiters:
  assumes "breadcrumbs (http w)"
    and "kind span = CLIENT"
    and "rr_query (g span) = Some q"
    and "rr_fragment (g span) = Some fr"
  shows "\<exists>b h. emitted (addRequestBreadcrumb g w span response) = emitted w @ [(b, h)]
    \<and> map_of (bc_data b) ''http.query'' = Some (VString q)
    \<and> map_of (bc_data b) ''http.fragment'' = Some (VString fr)"
  using assms by (simp add: addRequestBreadcrumb_emitted entries_def)

theorem addRequestBreadcrumb_keeps_delimiters_witness:
  "\<exists>b h. emitted (addRequestBreadcrumb
        (\<lambda>_. \<lparr> rr_url = ''http://api.example.com/path?x=1#frag'',
               rr_query = Some ''?x=1'', rr_fragment = Some ''#frag'' \<rparr>)
        \<lparr> http = setupOnce (\<lambda>_. False) (None :: ClientOptions option)
            (Http_new \<lparr> opt_breadcrumbs = Some True, opt_tracing = Some (TracingFlag True) \<rparr>),
          sentrySpans = Map.empty, emitted = [], decisions = [] \<rparr>
        \<lparr> kind = CLIENT, attributes = [HTTP_URL \<mapsto> VString ''http://api.example.com/path?x=1#frag''],
          spanId = ''a1'' \<rparr>
        \<lparr> statusCode = Some 200 \<rparr>) = [(b, h)]
     \<and> map_of (bc_data b) ''http.query'' = Some (VString ''?x=1'')
     \<and> map_of (bc_data b) ''http.fragment'' = Some (VString ''#frag'')"
  using addRequestBreadcrumb_keeps_delimiters [of
      "\<lparr> http = setupOnce (\<lambda>_. False) (None :: ClientOptions option)
          (Http_new \<lparr> opt_breadcrumbs = Some True, opt_tracing = Some (TracingFlag True) \<rparr>),
        sentrySpans = Map.empty, emitted = [], decisions = [] \<rparr>"
      "\<lparr> kind = CLIENT, attributes = [HTTP_URL \<mapsto> VString ''http://api.example.com/path?x=1#frag''],
        spanId = ''a1'' \<rparr>"
      "\<lambda>_. \<lparr> rr_url = ''http://api.example.com/path?x=1#frag'',
             rr_query = Some ''?x=1'', rr_fragment = Some ''#frag'' \<rparr>"
      "''?x=1''" "''#frag''" "\<lparr> statusCode = Some 200 \<rparr>"]
  by (simp add: setupOnce_def Http_new_def)

section \<open>Properties of the setup and of the hooks\<close>











lemma setupOnce_flag:
  "shouldCreateSpans (setupOnce hasTracingEnabled clientOptions (Http_new options)) =
     (case opt_tracing options of
        None \<Rightarrow> hasTracingEnabled clientOptions
      | Some t \<Rightarrow> tracing_truthy t)"
  by (auto simp: setupOnce_def Http_new_def split: option.splits)




text \<open>
  Claim C8. The incoming-request hook returns true exactly when the request has a method
  whose upper-case form, as \<^verbatim>\<open>toUpperCase\<close> gives it, is \<open>OPTIONS\<close> or \<open>HEAD\<close>. The
  outgoing-request hook returns true exactly when a request URL is extracted (the
  helper's result is a non-empty string, which is what the code tests) and that URL is
  one of the monitoring system's own; it returns false when no URL is extracted.
\<close>

theorem ignore_hooks:
  "(ignoreIncomingRequestHook toUpperCase request \<longleftrightarrow>
      (\<exists>m. req_method request = Some m
         \<and> (toUpperCase m = ''OPTIONS'' \<or> toUpperCase m = ''HEAD'')))
   \<and> (ignoreOutgoingRequestHook getRequestUrl isSentryRequestUrl r \<longleftrightarrow>
      (\<exists>url. getRequestUrl r = Some url \<and> url \<noteq> [] \<and> isSentryRequestUrl url))
   \<and> (getRequestUrl r = None \<or> getRequestUrl r = Some [] \<longrightarrow>
      \<not> ignoreOutgoingRequestHook getRequestUrl isSentryRequestUrl r)"
  by (auto simp: ignoreIncomingRequestHook_def ignoreOutgoingRequestHook_def Let_def
      split: option.splits)

theorem ignore_hooks_witness:
  "ignoreIncomingRequestHook asciiToUpperCase \<lparr> req_method = Some ''options'' \<rparr>
   \<and> ignoreIncomingRequestHook asciiToUpperCase \<lparr> req_method = Some ''HEAD'' \<rparr>
   \<and> \<not> ignoreIncomingRequestHook asciiToUpperCase \<lparr> req_method = Some ''GET'' \<rparr>
   \<and> \<not> ignoreIncomingRequestHook asciiToUpperCase \<lparr> req_method = None \<rparr>
   \<and> ignoreOutgoingRequestHook (\<lambda>u. u) (\<lambda>url. url = ''https://o1.ingest.sentry.io/api/1/envelope/'')
       (Some ''https://o1.ingest.sentry.io/api/1/envelope/'')
   \<and> \<not> ignoreOutgoingRequestHook (\<lambda>u. u) (\<lambda>url. url = ''https://o1.ingest.sentry.io/api/1/envelope/'')
       (Some ''http://svc/p'')
   \<and> \<not> ignoreOutgoingRequestHook (\<lambda>u. u) (\<lambda>url. True) (None :: string option)"
  using ignore_hooks [of asciiToUpperCase "\<lparr> req_method = Some ''options'' \<rparr>" "\<lambda>u. u"
      "\<lambda>url. url = ''https://o1.ingest.sentry.io/api/1/envelope/''"
      "Some ''https://o1.ingest.sentry.io/api/1/envelope/''"]
    ignore_hooks [of asciiToUpperCase "\<lparr> req_method = Some ''HEAD'' \<rparr>" "\<lambda>u. u"
      "\<lambda>url. url = ''https://o1.ingest.sentry.io/api/1/envelope/''"
      "Some ''http://svc/p''"]
    ignore_hooks [of asciiToUpperCase "\<lparr> req_method = Some ''GET'' \<rparr>" "\<lambda>u. u" "\<lambda>url. True"
      "None :: string option"]
    ignore_hooks [of asciiToUpperCase "\<lparr> req_method = None \<rparr>" "\<lambda>u. u" "\<lambda>url. True"
      "None :: string option"]
  by (simp add: asciiToUpperCase_def)

text \<open>
  Claim C10. When the tracing option is an object (empty or with a filter predicate), the
  constructor stores the tracing mode true; after setup the resolved tracing-enabled flag
  is true whatever the ambient check says, and \<^verbatim>\<open>onSpanEnd\<close> drops a span only for the
  filter predicate's reason.
\<close>

theorem tracing_object_enables:
  assumes "opt_tracing options = Some (TracingOptions p)"
  shows "tracing (Http_new options) = Some True
    \<and> shouldCreateSpans (setupOnce hasTracingEnabled clientOptions (Http_new options))
    \<and> fst (onSpanEnd (setupOnce hasTracingEnabled clientOptions (Http_new options)) otelSpan m) =
        (if \<exists>f url.
              shouldCreateSpanForRequest
                (setupOnce hasTracingEnabled clientOptions (Http_new options)) = Some f
              \<and> getHttpUrl (attributes otelSpan) = Some url \<and> url \<noteq> [] \<and> \<not> f url
         then m\<lparr>mo_drop := True\<rparr> else m)"
proof -
  have mode: "tracing (Http_new options) = Some True"
    using assms by (simp add: Http_new_def)
  have flag: "shouldCreateSpans (setupOnce hasTracingEnabled clientOptions (Http_new options))"
    using assms by (simp add: setupOnce_flag)
  have "fst (onSpanEnd (setupOnce hasTracingEnabled clientOptions (Http_new options)) otelSpan m) =
        (if \<exists>f url.
              shouldCreateSpanForRequest
                (setupOnce hasTracingEnabled clientOptions (Http_new options)) = Some f
              \<and> getHttpUrl (attributes otelSpan) = Some url \<and> url \<noteq> [] \<and> \<not> f url
         then m\<lparr>mo_drop := True\<rparr> else m)"
    using flag by (auto simp: onSpanEnd_def split: option.splits)
  with mode flag show ?thesis by simp
qed

theorem tracing_object_enables_witness:
  "tracing (Http_new \<lparr> opt_breadcrumbs = Some False, opt_tracing = Some (TracingOptions None) \<rparr>)
     = Some True
   \<and> shouldCreateSpans (setupOnce (\<lambda>_. False) (None :: ClientOptions option)
       (Http_new \<lparr> opt_breadcrumbs = Some False, opt_tracing = Some (TracingOptions None) \<rparr>))
   \<and> fst (onSpanEnd (setupOnce (\<lambda>_. False) (None :: ClientOptions option)
       (Http_new \<lparr> opt_breadcrumbs = Some False, opt_tracing = Some (TracingOptions None) \<rparr>))
       \<lparr> kind = CLIENT, attributes = [HTTP_URL \<mapsto> VString ''http://svc/p''], spanId = ''a1'' \<rparr>
       \<lparr> mo_drop = False \<rparr>) = \<lparr> mo_drop = False \<rparr>"
  using tracing_object_enables [of
      "\<lparr> opt_breadcrumbs = Some False, opt_tracing = Some (TracingOptions None) \<rparr>" None
      "\<lambda>_. False" "None :: ClientOptions option"
      "\<lparr> kind = CLIENT, attributes = [HTTP_URL \<mapsto> VString ''http://svc/p''], spanId = ''a1'' \<rparr>"
      "\<lparr> mo_drop = False \<rparr>"]
  by (simp add: setupOnce_def Http_new_def)

end
